theory Spec2Isabelle
  imports Complex_Main
begin

section \<open>Python values\<close>

text \<open>
  The validators of \<^verbatim>\<open>bot/validators.py\<close> accept untyped arguments, so the model works on a
  datatype of Python values. A float is a double: a finite value (kept as the rational
  it denotes exactly), an infinity or a NaN. The sign of a zero is not kept: no function
  below tells \<^verbatim>\<open>0.0\<close> from \<^verbatim>\<open>-0.0\<close>. A \<^typ>\<open>char\<close> stands for an ASCII code point; text
  outside ASCII is not covered by the string functions below.
\<close>

datatype pyfloat = Finite rat | PosInf | NegInf | NaN

datatype pyval =
    PNone
  | PBool bool
  | PInt int
  | PFloat pyfloat
  | PStr string
  | PList "pyval list"
  | PDict "(string \<times> pyval) list"

datatype pytype = NoneType | TBool | TInt | TFloat | TStr | TList | TDict

fun type_of :: "pyval \<Rightarrow> pytype" where
  "type_of PNone = NoneType"
| "type_of (PBool b) = TBool"
| "type_of (PInt i) = TInt"
| "type_of (PFloat f) = TFloat"
| "type_of (PStr s) = TStr"
| "type_of (PList xs) = TList"
| "type_of (PDict kvs) = TDict"

text \<open>\<^verbatim>\<open>isinstance(x, str)\<close>, and the string of a value that passed that test.\<close>

definition isinstance_str :: "pyval \<Rightarrow> bool" where
  "isinstance_str x = (type_of x = TStr)"

fun str_of :: "pyval \<Rightarrow> string" where
  "str_of (PStr s) = s"
| "str_of x = []"

text \<open>Truth value testing, as \<^verbatim>\<open>not x\<close> uses it.\<close>

fun truthy :: "pyval \<Rightarrow> bool" where
  "truthy PNone = False"
| "truthy (PBool b) = b"
| "truthy (PInt i) = (i \<noteq> 0)"
| "truthy (PFloat f) = (f \<noteq> Finite 0)"
| "truthy (PStr s) = (s \<noteq> [])"
| "truthy (PList xs) = (xs \<noteq> [])"
| "truthy (PDict kvs) = (kvs \<noteq> [])"

text \<open>
  A formatted string literal is kept as its pieces: the literal text and, at each
  replacement field, the value (or type) that Python would format there.
\<close>

datatype piece = Lit string | Val pyval | Typ pytype

type_synonym fstring = "piece list"

text \<open>
  The exceptions that reach this code. \<^verbatim>\<open>BinanceAPIException\<close> carries its status code, its
  error code and its message; \<^verbatim>\<open>BinanceRequestException\<close> its message.
\<close>

datatype exn =
    ValueError fstring
  | TypeError fstring
  | OverflowError fstring
  | BinanceAPIException int int string
  | BinanceRequestException string
  | OtherException fstring

fun is_ValueError :: "exn \<Rightarrow> bool" where
  "is_ValueError (ValueError m) = True"
| "is_ValueError e = False"

fun is_TypeError :: "exn \<Rightarrow> bool" where
  "is_TypeError (TypeError m) = True"
| "is_TypeError e = False"

text \<open>\<^verbatim>\<open>str(e)\<close>.\<close>

fun str_exn :: "exn \<Rightarrow> fstring" where
  "str_exn (ValueError m) = m"
| "str_exn (TypeError m) = m"
| "str_exn (OverflowError m) = m"
| "str_exn (BinanceAPIException status code msg) =
     [Lit ''APIError(code='', Val (PInt code), Lit ''): '', Val (PStr msg)]"
| "str_exn (BinanceRequestException msg) = [Lit ''BinanceRequestException: '', Val (PStr msg)]"
| "str_exn (OtherException m) = m"

section \<open>Strings\<close>

definition is_space :: "char \<Rightarrow> bool" where
  "is_space c = (of_char c \<in> {9, 10, 11, 12, 13, 28, 29, 30, 31, 32 :: nat})"

definition is_digit :: "char \<Rightarrow> bool" where
  "is_digit c = (48 \<le> (of_char c :: nat) \<and> (of_char c :: nat) \<le> 57)"

definition is_upper :: "char \<Rightarrow> bool" where
  "is_upper c = (65 \<le> (of_char c :: nat) \<and> (of_char c :: nat) \<le> 90)"

definition is_lower :: "char \<Rightarrow> bool" where
  "is_lower c = (97 \<le> (of_char c :: nat) \<and> (of_char c :: nat) \<le> 122)"


definition upper_char :: "char \<Rightarrow> char" where
  "upper_char c = (if is_lower c then char_of (of_char c - (32 :: nat)) else c)"

definition lower_char :: "char \<Rightarrow> char" where
  "lower_char c = (if is_upper c then char_of (of_char c + (32 :: nat)) else c)"

text \<open>\<^verbatim>\<open>s.upper()\<close>, \<^verbatim>\<open>s.lower()\<close> and \<^verbatim>\<open>s.strip()\<close>.\<close>

definition upper :: "string \<Rightarrow> string" where
  "upper s = map upper_char s"

definition lower :: "string \<Rightarrow> string" where
  "lower s = map lower_char s"

definition strip :: "string \<Rightarrow> string" where
  "strip s = rev (dropWhile is_space (rev (dropWhile is_space s)))"

text \<open>
  \<^verbatim>\<open>re.match(r'^[A-Z0-9]+$', s)\<close>: one or more characters of the class, up to the end of
  the string or up to a single newline that ends it (\<^verbatim>\<open>$\<close> also matches there).
\<close>

definition re_match_upper_alnum :: "string \<Rightarrow> bool" where
  "re_match_upper_alnum s =
     (let body = (if s \<noteq> [] \<and> last s = CHR 0x0A then butlast s else s)
      in body \<noteq> [] \<and> list_all (\<lambda>c. is_upper c \<or> is_digit c) body)"

section \<open>The built-in float\<close>

text \<open>The comparison \<^verbatim>\<open>x <= 0\<close> on a float: false on a NaN.\<close>

fun le_zero :: "pyfloat \<Rightarrow> bool" where
  "le_zero (Finite r) = (r \<le> 0)"
| "le_zero PosInf = False"
| "le_zero NegInf = True"
| "le_zero NaN = False"

text \<open>A float that is a strictly positive number.\<close>

fun positive :: "pyfloat \<Rightarrow> bool" where
  "positive (Finite r) = (0 < r)"
| "positive PosInf = True"
| "positive NegInf = False"
| "positive NaN = False"

text \<open>
  Rounding a rational to the nearest double, ties to even: 53 significant bits, the
  least exponent that of the subnormal numbers, an infinity from \<open>2 ^ 1024\<close> on.
\<close>

function bit_length :: "int \<Rightarrow> nat" where
  "bit_length n = (if n \<le> 0 then 0 else Suc (bit_length (n div 2)))"
  by pat_completeness auto
termination
  by (relation "measure nat") auto

declare bit_length.simps [simp del]

definition floor_log2 :: "rat \<Rightarrow> int" where
  "floor_log2 a =
     (let (p, q) = quotient_of a;
          d = int (bit_length p) - int (bit_length q)
      in if power_int 2 d \<le> a then d else d - 1)"

definition round_half_even :: "rat \<Rightarrow> int" where
  "round_half_even x =
     (let n = \<lfloor>x\<rfloor>; d = x - of_int n
      in if d < 1 / 2 then n else if 1 / 2 < d then n + 1 else if even n then n else n + 1)"

definition round_double :: "rat \<Rightarrow> pyfloat" where
  "round_double r =
     (if r = 0 then Finite 0
      else
        let a = \<bar>r\<bar>;
            e = max (floor_log2 a - 52) (- 1074);
            m = round_half_even (a / power_int 2 e);
            v = of_int m * power_int 2 e
        in if 2 ^ 1024 \<le> v then (if 0 < r then PosInf else NegInf)
           else Finite (if 0 < r then v else - v))"

text \<open>
  \<^verbatim>\<open>float(s)\<close> on a string. Underscores may stand between two digits only; what is left
  is an optional sign and then \<^verbatim>\<open>inf\<close>, \<^verbatim>\<open>infinity\<close> or \<^verbatim>\<open>nan\<close> in any case, or a decimal
  number with an optional exponent.
\<close>

fun remove_underscores :: "char \<Rightarrow> string \<Rightarrow> string option" where
  "remove_underscores prev [] = (if prev = CHR ''_'' then None else Some [])"
| "remove_underscores prev (c # cs) =
     (if c = CHR ''_'' then (if is_digit prev then remove_underscores c cs else None)
      else if prev = CHR ''_'' \<and> \<not> is_digit c then None
      else map_option ((#) c) (remove_underscores c cs))"

definition digits_value :: "string \<Rightarrow> int" where
  "digits_value ds = foldl (\<lambda>n c. 10 * n + (of_char c - 48)) 0 ds"

definition split_sign :: "string \<Rightarrow> bool \<times> string" where
  "split_sign s =
     (case s of
        [] \<Rightarrow> (False, [])
      | c # cs \<Rightarrow> if c = CHR ''-'' then (True, cs) else if c = CHR ''+'' then (False, cs) else (False, s))"

definition parse_exponent :: "string \<Rightarrow> int option" where
  "parse_exponent s =
     (let (neg, ds) = split_sign s
      in if ds \<noteq> [] \<and> list_all is_digit ds
         then Some (if neg then - digits_value ds else digits_value ds)
         else None)"

definition parse_decimal :: "string \<Rightarrow> rat option" where
  "parse_decimal s =
     (let ip = takeWhile is_digit s;
          r1 = dropWhile is_digit s;
          (fp, r2) = (case r1 of
                        [] \<Rightarrow> ([], [])
                      | c # cs \<Rightarrow> if c = CHR ''.'' then (takeWhile is_digit cs, dropWhile is_digit cs)
                                  else ([], r1));
          mant = of_int (digits_value (ip @ fp))
      in if ip = [] \<and> fp = [] then None
         else (case r2 of
                 [] \<Rightarrow> Some (mant * power_int 10 (- int (length fp)))
               | c # cs \<Rightarrow>
                   if c = CHR ''e'' \<or> c = CHR ''E''
                   then map_option (\<lambda>k. mant * power_int 10 (k - int (length fp))) (parse_exponent cs)
                   else None))"

definition float_of_string :: "string \<Rightarrow> pyfloat option" where
  "float_of_string s0 =
     (let s1 = strip s0
      in case (if CHR ''_'' \<in> set s1 then remove_underscores (CHR 0x00) s1 else Some s1) of
           None \<Rightarrow> None
         | Some s \<Rightarrow>
             let (neg, body) = split_sign s
             in if lower body = ''inf'' \<or> lower body = ''infinity''
                then Some (if neg then NegInf else PosInf)
                else if lower body = ''nan'' then Some NaN
                else map_option (\<lambda>r. round_double (if neg then - r else r)) (parse_decimal body))"

text \<open>
  \<^verbatim>\<open>float(x)\<close>: a float is returned as it is, a bool or an int is converted (an int too
  large for a double raises \<^verbatim>\<open>OverflowError\<close>), a string is parsed (\<^verbatim>\<open>ValueError\<close> when it
  is no number), anything else raises \<^verbatim>\<open>TypeError\<close>.
\<close>

fun py_float :: "pyval \<Rightarrow> exn + pyfloat" where
  "py_float (PFloat f) = Inr f"
| "py_float (PBool b) = Inr (Finite (if b then 1 else 0))"
| "py_float (PInt i) =
     (case round_double (of_int i) of
        Finite r \<Rightarrow> Inr (Finite r)
      | _ \<Rightarrow> Inl (OverflowError [Lit ''int too large to convert to float'']))"
| "py_float (PStr s) =
     (case float_of_string s of
        Some f \<Rightarrow> Inr f
      | None \<Rightarrow> Inl (ValueError [Lit ''could not convert string to float: '', Val (PStr s)]))"
| "py_float x =
     Inl (TypeError [Lit ''float() argument must be a string or a real number, not '', Typ (type_of x)])"

section \<open>Effects: the log and the requests sent to the exchange\<close>

text \<open>
  A function of the program returns the events it caused, in order, and either the
  exception it raised or its value. An event is a record handed to the logger, or a call
  of the exchange library's \<^verbatim>\<open>futures_create_order\<close> with its keyword arguments.
\<close>

datatype level = DEBUG | INFO | WARNING | ERROR

datatype event = Log level fstring | Request "(string \<times> pyval) list"

type_synonym 'a result = "event list \<times> (exn + 'a)"

definition return :: "'a \<Rightarrow> 'a result" where
  "return x = ([], Inr x)"

definition raise :: "exn \<Rightarrow> 'a result" where
  "raise e = ([], Inl e)"

definition log :: "level \<Rightarrow> fstring \<Rightarrow> unit result" where
  "log lv msg = ([Log lv msg], Inr ())"

definition bind :: "'a result \<Rightarrow> ('a \<Rightarrow> 'b result) \<Rightarrow> 'b result" where
  "bind m f =
     (case m of
        (evs, Inl e) \<Rightarrow> (evs, Inl e)
      | (evs, Inr x) \<Rightarrow> (case f x of (evs', r) \<Rightarrow> (evs @ evs', r)))"

definition seq :: "unit result \<Rightarrow> 'b result \<Rightarrow> 'b result" where
  "seq m k = bind m (\<lambda>_. k)"

text \<open>\<^verbatim>\<open>try: body except ...: handler\<close>; the handler sees every exception of the body.\<close>

definition try_except :: "'a result \<Rightarrow> (exn \<Rightarrow> 'a result) \<Rightarrow> 'a result" where
  "try_except body handler =
     (case body of
        (evs, Inl e) \<Rightarrow> (case handler e of (evs', r) \<Rightarrow> (evs @ evs', r))
      | (evs, Inr x) \<Rightarrow> (evs, Inr x))"

definition requests :: "event list \<Rightarrow> (string \<times> pyval) list list" where
  "requests evs = concat (map (\<lambda>ev. case ev of Request kw \<Rightarrow> [kw] | Log lv msg \<Rightarrow> []) evs)"

definition failed :: "'a result \<Rightarrow> bool" where
  "failed m = (case snd m of Inl e \<Rightarrow> True | Inr x \<Rightarrow> False)"

section \<open>bot/validators.py\<close>

definition validate_symbol :: "pyval \<Rightarrow> string result" where
  "validate_symbol symbol =
     (if \<not> truthy symbol \<or> \<not> isinstance_str symbol then
        seq (log WARNING [Lit ''Invalid symbol type: '', Typ (type_of symbol)])
            (raise (ValueError [Lit ''Symbol must be a non-empty string'']))
      else
        let symbol = strip (upper (str_of symbol)) in
        if \<not> re_match_upper_alnum symbol then
          seq (log WARNING [Lit ''Invalid symbol format: '', Val (PStr symbol)])
              (raise (ValueError [Lit ''Symbol must contain only alphanumeric characters, got: '',
                                  Val (PStr symbol)]))
        else if length symbol < 2 then
          seq (log WARNING [Lit ''Symbol too short: '', Val (PStr symbol)])
              (raise (ValueError [Lit ''Symbol must be at least 2 characters, got: '',
                                  Val (PInt (int (length symbol)))]))
        else
          seq (log DEBUG [Lit ''Symbol validated: '', Val (PStr symbol)])
              (return symbol))"

definition validate_side :: "pyval \<Rightarrow> string result" where
  "validate_side side =
     (if \<not> truthy side \<or> \<not> isinstance_str side then
        seq (log WARNING [Lit ''Invalid side type: '', Typ (type_of side)])
            (raise (ValueError [Lit ''Side must be a non-empty string'']))
      else
        let side = strip (upper (str_of side)) in
        if side \<notin> {''BUY'', ''SELL''} then
          seq (log WARNING [Lit ''Invalid side value: '', Val (PStr side)])
              (raise (ValueError [Lit ''Side must be 'BUY' or 'SELL', got: '', Val (PStr side)]))
        else
          seq (log DEBUG [Lit ''Side validated: '', Val (PStr side)])
              (return side))"

definition validate_order_type :: "pyval \<Rightarrow> string result" where
  "validate_order_type order_type =
     (if \<not> truthy order_type \<or> \<not> isinstance_str order_type then
        seq (log WARNING [Lit ''Invalid order_type type: '', Typ (type_of order_type)])
            (raise (ValueError [Lit ''Order type must be a non-empty string'']))
      else
        let order_type = strip (upper (str_of order_type)) in
        if order_type \<notin> {''MARKET'', ''LIMIT''} then
          seq (log WARNING [Lit ''Invalid order_type value: '', Val (PStr order_type)])
              (raise (ValueError [Lit ''Order type must be 'MARKET' or 'LIMIT', got: '',
                                  Val (PStr order_type)]))
        else
          seq (log DEBUG [Lit ''Order type validated: '', Val (PStr order_type)])
              (return order_type))"

text \<open>
  \<^verbatim>\<open>except (TypeError, ValueError)\<close> catches those two exceptions of \<^verbatim>\<open>float\<close>; any other
  one leaves the validator as it is.
\<close>

definition validate_quantity :: "pyval \<Rightarrow> pyfloat result" where
  "validate_quantity quantity =
     (case py_float quantity of
        Inl e \<Rightarrow>
          if is_TypeError e \<or> is_ValueError e then
            seq (log WARNING [Lit ''Invalid quantity format: '', Val quantity])
                (raise (ValueError [Lit ''Quantity must be a valid number, got: '', Val quantity]))
          else raise e
      | Inr qty \<Rightarrow>
          if le_zero qty then
            seq (log WARNING [Lit ''Invalid quantity value: '', Val (PFloat qty)])
                (raise (ValueError [Lit ''Quantity must be positive, got: '', Val (PFloat qty)]))
          else
            seq (log DEBUG [Lit ''Quantity validated: '', Val (PFloat qty)])
                (return qty))"

definition validate_price :: "pyval \<Rightarrow> pyval \<Rightarrow> pyfloat option result" where
  "validate_price price order_type =
     (if order_type = PStr ''LIMIT'' then
        if price = PNone then
          seq (log WARNING [Lit ''Price is required for LIMIT orders''])
              (raise (ValueError [Lit ''Price is required for LIMIT orders'']))
        else
          (case py_float price of
             Inl e \<Rightarrow>
               if is_TypeError e \<or> is_ValueError e then
                 seq (log WARNING [Lit ''Invalid price format: '', Val price])
                     (raise (ValueError [Lit ''Price must be a valid number, got: '', Val price]))
               else raise e
           | Inr px \<Rightarrow>
               if le_zero px then
                 seq (log WARNING [Lit ''Invalid price value: '', Val (PFloat px)])
                     (raise (ValueError [Lit ''Price must be positive, got: '', Val (PFloat px)]))
               else
                 seq (log DEBUG [Lit ''Price validated: '', Val (PFloat px)])
                     (return (Some px)))
      else
        seq (if price \<noteq> PNone
             then log WARNING [Lit ''Price not required for MARKET orders, ignoring: '', Val price]
             else return ())
            (return None))"

text \<open>The dictionary that \<^verbatim>\<open>validate_all_inputs\<close> returns has these five keys.\<close>

record validated =
  v_symbol :: string
  v_side :: string
  v_order_type :: string
  v_quantity :: pyfloat
  v_price :: "pyfloat option"

definition validate_all_inputs ::
  "pyval \<Rightarrow> pyval \<Rightarrow> pyval \<Rightarrow> pyval \<Rightarrow> pyval \<Rightarrow> validated result" where
  "validate_all_inputs symbol side order_type quantity price =
     seq (log INFO [Lit ''Validating inputs - Symbol: '', Val symbol, Lit '', Side: '', Val side,
                    Lit '', Type: '', Val order_type, Lit '', Qty: '', Val quantity,
                    Lit '', Price: '', Val price])
       (try_except
          (bind (validate_symbol symbol) (\<lambda>sy.
           bind (validate_side side) (\<lambda>sd.
           bind (validate_order_type order_type) (\<lambda>ot.
           bind (validate_quantity quantity) (\<lambda>qty.
           bind (validate_price price (PStr ot)) (\<lambda>px.
           seq (log INFO [Lit ''All inputs validated successfully''])
               (return \<lparr>v_symbol = sy, v_side = sd, v_order_type = ot,
                        v_quantity = qty, v_price = px\<rparr>)))))))
          (\<lambda>e. if is_ValueError e
                then seq (log ERROR (Lit ''Validation failed: '' # str_exn e)) (raise e)
                else raise e))"

section \<open>bot/client.py\<close>

text \<open>
  The exchange library is outside the repository: \<^verbatim>\<open>futures_create_order\<close> is a parameter,
  a function from the keyword arguments of the call to the exception it raises or the
  dictionary it returns. \<^verbatim>\<open>d.get(k)\<close> is \<^verbatim>\<open>None\<close> for a key that the dictionary lacks.
\<close>

type_synonym api = "(string \<times> pyval) list \<Rightarrow> exn + (string \<times> pyval) list"

definition py_get :: "(string \<times> pyval) list \<Rightarrow> string \<Rightarrow> pyval" where
  "py_get d k = (case map_of d k of None \<Rightarrow> PNone | Some v \<Rightarrow> v)"

definition futures_create_order :: "api \<Rightarrow> (string \<times> pyval) list \<Rightarrow> (string \<times> pyval) list result" where
  "futures_create_order api kw = ([Request kw], api kw)"

fun status_code :: "exn \<Rightarrow> int" where
  "status_code (BinanceAPIException status code msg) = status"
| "status_code e = 0"

fun message :: "exn \<Rightarrow> string" where
  "message (BinanceAPIException status code msg) = msg"
| "message (BinanceRequestException msg) = msg"
| "message e = []"

fun is_BinanceAPIException :: "exn \<Rightarrow> bool" where
  "is_BinanceAPIException (BinanceAPIException status code msg) = True"
| "is_BinanceAPIException e = False"

fun is_BinanceRequestException :: "exn \<Rightarrow> bool" where
  "is_BinanceRequestException (BinanceRequestException msg) = True"
| "is_BinanceRequestException e = False"

definition place_market_order :: "api \<Rightarrow> pyval \<Rightarrow> pyval \<Rightarrow> pyval \<Rightarrow> (string \<times> pyval) list result" where
  "place_market_order api symbol side quantity =
     try_except
       (seq (log INFO [Lit ''Placing MARKET order - Symbol: '', Val symbol, Lit '', Side: '', Val side,
                       Lit '', Qty: '', Val quantity])
        (bind (futures_create_order api
                 [(''symbol'', symbol), (''side'', side), (''type'', PStr ''MARKET''),
                  (''quantity'', quantity)]) (\<lambda>order.
         seq (log INFO [Lit ''Market order placed successfully. Order ID: '',
                        Val (py_get order ''orderId'')])
        (seq (log DEBUG [Lit ''Order response: '', Val (PDict order)])
             (return order)))))
       (\<lambda>e. if is_BinanceAPIException e then
               seq (log ERROR [Lit ''API error placing market order: '', Val (PInt (status_code e)),
                               Lit '' - '', Val (PStr (message e))])
                   (raise e)
             else if is_BinanceRequestException e then
               seq (log ERROR (Lit ''Network error placing market order: '' # str_exn e)) (raise e)
             else
               seq (log ERROR (Lit ''Unexpected error placing market order: '' # str_exn e)) (raise e))"

definition place_limit_order ::
  "api \<Rightarrow> pyval \<Rightarrow> pyval \<Rightarrow> pyval \<Rightarrow> pyval \<Rightarrow> (string \<times> pyval) list result" where
  "place_limit_order api symbol side quantity price =
     try_except
       (seq (log INFO [Lit ''Placing LIMIT order - Symbol: '', Val symbol, Lit '', Side: '', Val side,
                       Lit '', Qty: '', Val quantity, Lit '', Price: '', Val price])
        (bind (futures_create_order api
                 [(''symbol'', symbol), (''side'', side), (''type'', PStr ''LIMIT''),
                  (''timeInForce'', PStr ''GTC''), (''quantity'', quantity), (''price'', price)])
           (\<lambda>order.
         seq (log INFO [Lit ''Limit order placed successfully. Order ID: '',
                        Val (py_get order ''orderId'')])
        (seq (log DEBUG [Lit ''Order response: '', Val (PDict order)])
             (return order)))))
       (\<lambda>e. if is_BinanceAPIException e then
               seq (log ERROR [Lit ''API error placing limit order: '', Val (PInt (status_code e)),
                               Lit '' - '', Val (PStr (message e))])
                   (raise e)
             else if is_BinanceRequestException e then
               seq (log ERROR (Lit ''Network error placing limit order: '' # str_exn e)) (raise e)
             else
               seq (log ERROR (Lit ''Unexpected error placing limit order: '' # str_exn e)) (raise e))"

section \<open>bot/orders.py\<close>

definition opt_float :: "pyfloat option \<Rightarrow> pyval" where
  "opt_float p = (case p of None \<Rightarrow> PNone | Some x \<Rightarrow> PFloat x)"

definition format_order_summary :: "validated \<Rightarrow> fstring" where
  "format_order_summary order_params =
     (let summary = [Lit ''Symbol='', Val (PStr (v_symbol order_params)),
                     Lit '', Side='', Val (PStr (v_side order_params)),
                     Lit '', Type='', Val (PStr (v_order_type order_params)),
                     Lit '', Quantity='', Val (PFloat (v_quantity order_params))]
      in if v_price order_params \<noteq> None
         then summary @ [Lit '', Price='', Val (opt_float (v_price order_params))]
         else summary)"

definition format_order_response :: "(string \<times> pyval) list \<Rightarrow> fstring" where
  "format_order_response order_details =
     [Lit ''OrderID='', Val (py_get order_details ''orderId''),
      Lit '', Symbol='', Val (py_get order_details ''symbol''),
      Lit '', Side='', Val (py_get order_details ''side''),
      Lit '', Type='', Val (py_get order_details ''type''),
      Lit '', Status='', Val (py_get order_details ''status''),
      Lit '', ExecutedQty='', Val (py_get order_details ''executedQty''),
      Lit '', AvgPrice='', Val (py_get order_details ''avgPrice''),
      Lit '', Timestamp='', Val (py_get order_details ''timestamp'')]"

definition extract_order_details :: "(string \<times> pyval) list \<Rightarrow> (string \<times> pyval) list" where
  "extract_order_details response =
     [(''orderId'', py_get response ''orderId''),
      (''symbol'', py_get response ''symbol''),
      (''side'', py_get response ''side''),
      (''type'', py_get response ''type''),
      (''status'', py_get response ''status''),
      (''executedQty'', py_get response ''executedQty''),
      (''avgPrice'', py_get response ''avgPrice''),
      (''timestamp'', py_get response ''updateTime'')]"

definition place_order ::
  "api \<Rightarrow> pyval \<Rightarrow> pyval \<Rightarrow> pyval \<Rightarrow> pyval \<Rightarrow> pyval \<Rightarrow> (string \<times> pyval) list result" where
  "place_order api symbol side order_type quantity price =
     try_except
       (bind (validate_all_inputs symbol side order_type quantity price) (\<lambda>validated.
        seq (log INFO (Lit ''Order request: '' # format_order_summary validated))
       (bind (if v_order_type validated = ''MARKET''
              then place_market_order api (PStr (v_symbol validated)) (PStr (v_side validated))
                     (PFloat (v_quantity validated))
              else place_limit_order api (PStr (v_symbol validated)) (PStr (v_side validated))
                     (PFloat (v_quantity validated)) (opt_float (v_price validated)))
          (\<lambda>response.
        let order_details = extract_order_details response in
        seq (log INFO (Lit ''Order response: '' # format_order_response order_details))
            (return order_details)))))
       (\<lambda>e. if is_ValueError e
             then seq (log ERROR (Lit ''Validation error: '' # str_exn e)) (raise e)
             else seq (log ERROR (Lit ''Order placement failed: '' # str_exn e)) (raise e))"

section \<open>Notions used in the statements\<close>


text \<open>
  The value is no number for \<^verbatim>\<open>float\<close>: the conversion raises one of the two exceptions
  that the validators catch. This is so for \<^verbatim>\<open>None\<close>, for a container and for a string that
  is no numeral; never for a float, a bool or an int.
\<close>

definition not_a_number :: "pyval \<Rightarrow> bool" where
  "not_a_number x = (case py_float x of Inl e \<Rightarrow> is_TypeError e \<or> is_ValueError e | Inr f \<Rightarrow> False)"

text \<open>The doubles that the literals \<^verbatim>\<open>0.001\<close> and \<^verbatim>\<open>0.01\<close> denote; \<^verbatim>\<open>3500.50\<close> is \<open>7001 / 2\<close>.\<close>

definition float_0_001 :: pyfloat where
  "float_0_001 = Finite (1152921504606847 / 2 ^ 60)"

definition float_0_01 :: pyfloat where
  "float_0_01 = Finite (5764607523034235 / 2 ^ 59)"

text \<open>
  The record logged on entering \<^verbatim>\<open>validate_all_inputs\<close>, and what its exception handler
  logs before it raises the exception again.
\<close>

definition validating :: "pyval \<Rightarrow> pyval \<Rightarrow> pyval \<Rightarrow> pyval \<Rightarrow> pyval \<Rightarrow> event" where
  "validating symbol side order_type quantity price =
     Log INFO [Lit ''Validating inputs - Symbol: '', Val symbol, Lit '', Side: '', Val side,
               Lit '', Type: '', Val order_type, Lit '', Qty: '', Val quantity,
               Lit '', Price: '', Val price]"

definition failure_log :: "exn \<Rightarrow> event list" where
  "failure_log e =
     (if is_ValueError e then [Log ERROR (Lit ''Validation failed: '' # str_exn e)] else [])"

section \<open>Results and events\<close>

lemmas result_defs = return_def raise_def log_def bind_def seq_def try_except_def

lemma result_cases:
  obtains (Fail) l e where "m = (l, Inl e)" | (Ok) l x where "m = (l, Inr x)"
  by (cases m; cases "snd m") auto

lemma fst_bind: "fst (bind m f) = (case snd m of Inl e \<Rightarrow> fst m | Inr x \<Rightarrow> fst m @ fst (f x))"
  by (cases m rule: result_cases) (simp_all add: bind_def split: prod.splits)

lemma snd_bind: "snd (bind m f) = (case snd m of Inl e \<Rightarrow> Inl e | Inr x \<Rightarrow> snd (f x))"
  by (cases m rule: result_cases) (simp_all add: bind_def split: prod.splits)

lemma fst_try_except:
  "fst (try_except m h) = (case snd m of Inl e \<Rightarrow> fst m @ fst (h e) | Inr x \<Rightarrow> fst m)"
  by (cases m rule: result_cases) (simp_all add: try_except_def split: prod.splits)

lemma requests_simps [simp]:
  "requests [] = []"
  "requests (Log lv msg # evs) = requests evs"
  "requests (Request kw # evs) = kw # requests evs"
  "requests (xs @ ys) = requests xs @ requests ys"
  by (simp_all add: requests_def)

section \<open>The steps of validate\_all\_inputs\<close>

lemma vai_symbol:
  "validate_symbol sy = (l1, Inl e) \<Longrightarrow>
   validate_all_inputs sy sd ot q p = (validating sy sd ot q p # l1 @ failure_log e, Inl e)"
  by (simp add: validate_all_inputs_def validating_def failure_log_def result_defs)

lemma vai_side:
  "validate_symbol sy = (l1, Inr a) \<Longrightarrow> validate_side sd = (l2, Inl e) \<Longrightarrow>
   validate_all_inputs sy sd ot q p = (validating sy sd ot q p # l1 @ l2 @ failure_log e, Inl e)"
  by (simp add: validate_all_inputs_def validating_def failure_log_def result_defs)

lemma vai_order_type:
  "validate_symbol sy = (l1, Inr a) \<Longrightarrow> validate_side sd = (l2, Inr b) \<Longrightarrow>
   validate_order_type ot = (l3, Inl e) \<Longrightarrow>
   validate_all_inputs sy sd ot q p =
     (validating sy sd ot q p # l1 @ l2 @ l3 @ failure_log e, Inl e)"
  by (simp add: validate_all_inputs_def validating_def failure_log_def result_defs)

lemma vai_quantity:
  "validate_symbol sy = (l1, Inr a) \<Longrightarrow> validate_side sd = (l2, Inr b) \<Longrightarrow>
   validate_order_type ot = (l3, Inr c) \<Longrightarrow> validate_quantity q = (l4, Inl e) \<Longrightarrow>
   validate_all_inputs sy sd ot q p =
     (validating sy sd ot q p # l1 @ l2 @ l3 @ l4 @ failure_log e, Inl e)"
  by (simp add: validate_all_inputs_def validating_def failure_log_def result_defs)

lemma vai_price:
  "validate_symbol sy = (l1, Inr a) \<Longrightarrow> validate_side sd = (l2, Inr b) \<Longrightarrow>
   validate_order_type ot = (l3, Inr c) \<Longrightarrow> validate_quantity q = (l4, Inr d) \<Longrightarrow>
   validate_price p (PStr c) = (l5, Inl e) \<Longrightarrow>
   validate_all_inputs sy sd ot q p =
     (validating sy sd ot q p # l1 @ l2 @ l3 @ l4 @ l5 @ failure_log e, Inl e)"
  by (simp add: validate_all_inputs_def validating_def failure_log_def result_defs)

lemma vai_success:
  "validate_symbol sy = (l1, Inr a) \<Longrightarrow> validate_side sd = (l2, Inr b) \<Longrightarrow>
   validate_order_type ot = (l3, Inr c) \<Longrightarrow> validate_quantity q = (l4, Inr d) \<Longrightarrow>
   validate_price p (PStr c) = (l5, Inr x) \<Longrightarrow>
   validate_all_inputs sy sd ot q p =
     (validating sy sd ot q p # l1 @ l2 @ l3 @ l4 @ l5 @
        [Log INFO [Lit ''All inputs validated successfully'']],
      Inr \<lparr>v_symbol = a, v_side = b, v_order_type = c, v_quantity = d, v_price = x\<rparr>)"
  by (simp add: validate_all_inputs_def validating_def failure_log_def result_defs)

text \<open>Every run of \<^const>\<open>validate_all_inputs\<close> is one of these six.\<close>

lemma vai_cases:
  obtains
    (Symbol) l1 e where
      "validate_symbol sy = (l1, Inl e)"
      "validate_all_inputs sy sd ot q p = (validating sy sd ot q p # l1 @ failure_log e, Inl e)"
  | (Side) l1 a l2 e where
      "validate_symbol sy = (l1, Inr a)" "validate_side sd = (l2, Inl e)"
      "validate_all_inputs sy sd ot q p = (validating sy sd ot q p # l1 @ l2 @ failure_log e, Inl e)"
  | (Type) l1 a l2 b l3 e where
      "validate_symbol sy = (l1, Inr a)" "validate_side sd = (l2, Inr b)"
      "validate_order_type ot = (l3, Inl e)"
      "validate_all_inputs sy sd ot q p =
         (validating sy sd ot q p # l1 @ l2 @ l3 @ failure_log e, Inl e)"
  | (Quantity) l1 a l2 b l3 c l4 e where
      "validate_symbol sy = (l1, Inr a)" "validate_side sd = (l2, Inr b)"
      "validate_order_type ot = (l3, Inr c)" "validate_quantity q = (l4, Inl e)"
      "validate_all_inputs sy sd ot q p =
         (validating sy sd ot q p # l1 @ l2 @ l3 @ l4 @ failure_log e, Inl e)"
  | (Price) l1 a l2 b l3 c l4 d l5 e where
      "validate_symbol sy = (l1, Inr a)" "validate_side sd = (l2, Inr b)"
      "validate_order_type ot = (l3, Inr c)" "validate_quantity q = (l4, Inr d)"
      "validate_price p (PStr c) = (l5, Inl e)"
      "validate_all_inputs sy sd ot q p =
         (validating sy sd ot q p # l1 @ l2 @ l3 @ l4 @ l5 @ failure_log e, Inl e)"
  | (Valid) l1 a l2 b l3 c l4 d l5 x where
      "validate_symbol sy = (l1, Inr a)" "validate_side sd = (l2, Inr b)"
      "validate_order_type ot = (l3, Inr c)" "validate_quantity q = (l4, Inr d)"
      "validate_price p (PStr c) = (l5, Inr x)"
      "validate_all_inputs sy sd ot q p =
         (validating sy sd ot q p # l1 @ l2 @ l3 @ l4 @ l5 @
            [Log INFO [Lit ''All inputs validated successfully'']],
          Inr \<lparr>v_symbol = a, v_side = b, v_order_type = c, v_quantity = d, v_price = x\<rparr>)"
proof (cases "validate_symbol sy" rule: result_cases)
  case (Fail l e)
  show ?thesis by (rule Symbol [OF Fail vai_symbol [OF Fail]])
next
  case s: (Ok l1 a)
  show ?thesis
  proof (cases "validate_side sd" rule: result_cases)
    case (Fail l e)
    show ?thesis by (rule Side [OF s Fail vai_side [OF s Fail]])
  next
    case d: (Ok l2 b)
    show ?thesis
    proof (cases "validate_order_type ot" rule: result_cases)
      case (Fail l e)
      show ?thesis by (rule Type [OF s d Fail vai_order_type [OF s d Fail]])
    next
      case t: (Ok l3 c)
      show ?thesis
      proof (cases "validate_quantity q" rule: result_cases)
        case (Fail l e)
        show ?thesis by (rule Quantity [OF s d t Fail vai_quantity [OF s d t Fail]])
      next
        case n: (Ok l4 f)
        show ?thesis
        proof (cases "validate_price p (PStr c)" rule: result_cases)
          case (Fail l e)
          show ?thesis by (rule Price [OF s d t n Fail vai_price [OF s d t n Fail]])
        next
          case (Ok l5 x)
          show ?thesis by (rule Valid [OF s d t n Ok vai_success [OF s d t n Ok]])
        qed
      qed
    qed
  qed
qed

section \<open>The range of a double\<close>

text \<open>An int from \<open>2 ^ 1024\<close> on is too large for a double.\<close>

lemma bit_length_bounds:
  "0 < n \<Longrightarrow> 2 ^ (bit_length n - 1) \<le> n \<and> n < 2 ^ bit_length n"
proof (induction n rule: bit_length.induct)
  case (1 n)
  show ?case
  proof (cases "n div 2 \<le> 0")
    case True
    with 1(2) have "n = 1" by linarith
    then show ?thesis by (simp add: bit_length.simps [of 1] bit_length.simps [of 0])
  next
    case False
    then have pos: "0 < n div 2" by simp
    have ih: "2 ^ (bit_length (n div 2) - 1) \<le> n div 2 \<and> n div 2 < 2 ^ bit_length (n div 2)"
      using 1(1) 1(2) pos by simp
    have bl: "bit_length n = Suc (bit_length (n div 2))"
      using 1(2) by (simp add: bit_length.simps [of n])
    have nz: "bit_length (n div 2) \<noteq> 0"
      using pos by (simp add: bit_length.simps [of "n div 2"])
    then obtain k where k: "bit_length (n div 2) = Suc k" by (cases "bit_length (n div 2)") auto
    from ih k have "2 ^ k \<le> n div 2" "n div 2 < 2 ^ Suc k" by simp_all
    then have "2 * 2 ^ k \<le> n" "n < 2 * 2 ^ Suc k" by linarith+
    then show ?thesis by (simp add: bl k)
  qed
qed

lemma bit_length_pos: "0 < n \<Longrightarrow> 0 < bit_length n"
  by (simp add: bit_length.simps [of n])

text \<open>For a positive integer the exponent is the bit length less one.\<close>

lemma floor_log2_of_int:
  assumes "0 < i"
  shows "floor_log2 (of_int i) = int (bit_length i) - 1"
proof -
  have q: "quotient_of (of_int i) = (i, 1)" by simp
  have b1: "bit_length 1 = 1" by (simp add: bit_length.simps [of 1] bit_length.simps [of 0])
  from bit_length_bounds [OF assms] have lo: "2 ^ (bit_length i - 1) \<le> i" and hi: "i < 2 ^ bit_length i"
    by simp_all
  from bit_length_pos [OF assms] obtain k where k: "bit_length i = Suc k"
    by (cases "bit_length i") auto
  from lo k have "2 ^ k \<le> i" by simp
  then have "(of_int (2 ^ k) :: rat) \<le> of_int i" by (simp only: of_int_le_iff)
  then have "(2 :: rat) ^ k \<le> of_int i" by simp
  then show ?thesis
    by (simp add: floor_log2_def q b1 k)
qed

lemma round_half_even_ge: "of_int n \<le> x \<Longrightarrow> n \<le> round_half_even x"
proof -
  assume "of_int n \<le> x"
  then have "n \<le> \<lfloor>x\<rfloor>" by (simp add: le_floor_iff)
  then show ?thesis by (simp add: round_half_even_def Let_def)
qed

lemma round_double_overflow:
  assumes "2 ^ 1024 \<le> i"
  shows "round_double (of_int i) = PosInf"
proof -
  have "(0 :: int) < 2 ^ 1024" by (rule zero_less_power) simp
  then have pos: "0 < i" using assms by (rule less_le_trans)
  define n where "n = bit_length i"
  from bit_length_bounds [OF pos] have hi: "i < 2 ^ n" and lo: "2 ^ (n - 1) \<le> i"
    by (simp_all add: n_def)
  have one: "(1 :: int) < 2" by simp
  have "(2 :: int) ^ 1024 < 2 ^ n" using assms hi by (rule le_less_trans)
  from power_less_imp_less_exp [OF one this] have n: "1024 < n" .
  then obtain k where k: "n = Suc k" and k1024: "1024 \<le> k"
    by (cases n) auto
  have fl: "floor_log2 (of_int i) = int k"
    using floor_log2_of_int [OF pos] by (simp add: n_def [symmetric] k)
  define e where "e = k - 52"
  have e: "max (floor_log2 (rat_of_int i) - 52) (- 1074) = int e"
    using k1024 by (simp add: fl e_def)
  have ke: "k = 52 + e" using k1024 by (simp add: e_def)
  have "2 ^ k \<le> i" using lo k by simp
  then have "(of_int (2 ^ k) :: rat) \<le> of_int i" by (simp only: of_int_le_iff)
  then have "(2 :: rat) ^ 52 * 2 ^ e \<le> of_int i" by (simp add: ke power_add)
  then have "(2 :: rat) ^ 52 \<le> of_int i / 2 ^ e"
    by (simp add: pos_le_divide_eq)
  then have "(of_int (2 ^ 52) :: rat) \<le> of_int i / 2 ^ e" by simp
  then have m: "2 ^ 52 \<le> round_half_even (of_int i / 2 ^ e)"
    by (rule round_half_even_ge)
  have "(2 :: rat) ^ 1024 \<le> 2 ^ k" using k1024 by (intro power_increasing) simp_all
  also have "\<dots> = of_int (2 ^ 52) * 2 ^ e" by (simp add: ke power_add)
  also have "\<dots> \<le> of_int (round_half_even (of_int i / 2 ^ e)) * 2 ^ e"
    using m by (intro mult_right_mono) (simp_all only: of_int_le_iff zero_le_power zero_le_numeral)
  finally have v: "(2 :: rat) ^ 1024 \<le> of_int (round_half_even (of_int i / 2 ^ e)) * 2 ^ e" .
  have nz: "rat_of_int i \<noteq> 0" using pos by simp
  show ?thesis
    using v pos nz by (simp add: round_double_def Let_def e)
qed

lemma py_float_overflow:
  "2 ^ 1024 \<le> i \<Longrightarrow>
   py_float (PInt i) = Inl (OverflowError [Lit ''int too large to convert to float''])"
  by (simp add: round_double_overflow)

text \<open>
  Such an int is a number, and \<^verbatim>\<open>validate_quantity\<close> does not catch what \<^verbatim>\<open>float\<close> raises on
  it: the exception that leaves the validator is the \<^verbatim>\<open>OverflowError\<close>, with no log record.
\<close>

lemma validate_quantity_overflow:
  "2 ^ 1024 \<le> i \<Longrightarrow>
   validate_quantity (PInt i) =
     ([], Inl (OverflowError [Lit ''int too large to convert to float'']))"
  by (simp add: validate_quantity_def py_float_overflow result_defs del: py_float.simps)

section \<open>Quantity and price\<close>

lemma not_a_number_iff:
  "not_a_number x =
     (case x of
        PFloat f \<Rightarrow> False | PBool b \<Rightarrow> False | PInt i \<Rightarrow> False
      | PStr s \<Rightarrow> float_of_string s = None
      | _ \<Rightarrow> True)"
  by (cases x) (auto simp: not_a_number_def split: pyfloat.splits option.splits)



lemma validate_quantity_ok:
  "validate_quantity q = (l, Inr f) \<Longrightarrow> py_float q = Inr f \<and> \<not> le_zero f"
  by (auto simp: validate_quantity_def result_defs split: sum.splits if_splits)

lemma validate_price_LIMIT_ok:
  "validate_price p (PStr ''LIMIT'') = (l, Inr x) \<Longrightarrow>
   \<exists>px. x = Some px \<and> py_float p = Inr px \<and> \<not> le_zero px"
  by (auto simp: validate_price_def result_defs split: sum.splits if_splits)

lemma validate_price_other:
  "ot \<noteq> PStr ''LIMIT'' \<Longrightarrow>
   validate_price p ot =
     (if p \<noteq> PNone
      then [Log WARNING [Lit ''Price not required for MARKET orders, ignoring: '', Val p]]
      else [],
      Inr None)"
  by (simp add: validate_price_def result_defs)



text \<open>
  C10. The string \<^verbatim>\<open>"nan"\<close> converts to a NaN, \<^verbatim>\<open>qty <= 0\<close> is false on it, and
  \<^verbatim>\<open>validate_quantity\<close> returns the NaN: a returned quantity that is no strictly positive
  number.
\<close>

theorem validate_quantity_accepts_nan:
  "validate_quantity (PStr ''nan'') =
     ([Log DEBUG [Lit ''Quantity validated: '', Val (PFloat NaN)]], Inr NaN) \<and>
   py_float (PStr ''nan'') = Inr NaN \<and> \<not> le_zero NaN \<and> \<not> positive NaN"
  by code_simp

theorem validate_quantity_accepts_nan_witness:
  "\<exists>q f. snd (validate_quantity q) = Inr f \<and> \<not> positive f"
proof -
  have "snd (validate_quantity (PStr ''nan'')) = Inr NaN \<and> \<not> positive NaN"
    using validate_quantity_accepts_nan by simp
  then show ?thesis by blast
qed





section \<open>Symbols\<close>













section \<open>The response of the exchange\<close>

text \<open>
  C6. \<^verbatim>\<open>extract_order_details\<close> returns a dictionary with exactly the eight keys; each holds
  what the response holds under the same key (\<^verbatim>\<open>timestamp\<close>: under \<^verbatim>\<open>updateTime\<close>), and
  \<^verbatim>\<open>None\<close> when the response lacks that key. The function is total: there is no response
  on which it raises.
\<close>

theorem extract_order_details_projection:
  "map fst (extract_order_details r) =
     [''orderId'', ''symbol'', ''side'', ''type'', ''status'', ''executedQty'', ''avgPrice'',
      ''timestamp''] \<and>
   (\<forall>k \<in> set [''orderId'', ''symbol'', ''side'', ''type'', ''status'', ''executedQty'', ''avgPrice''].
      map_of (extract_order_details r) k = Some (py_get r k)) \<and>
   map_of (extract_order_details r) ''timestamp'' = Some (py_get r ''updateTime'') \<and>
   (\<forall>k. map_of r k = None \<longrightarrow> py_get r k = PNone) \<and>
   (\<forall>k v. map_of r k = Some v \<longrightarrow> py_get r k = v)"
  by (simp add: extract_order_details_def py_get_def)

theorem extract_order_details_projection_witness:
  "map_of (extract_order_details
     [(''orderId'', PInt 42), (''symbol'', PStr ''ETHUSDT''), (''status'', PStr ''NEW''),
      (''updateTime'', PInt 1700000000000), (''clientOrderId'', PStr ''x1'')]) ''avgPrice'' = Some PNone \<and>
   map_of (extract_order_details
     [(''orderId'', PInt 42), (''symbol'', PStr ''ETHUSDT''), (''status'', PStr ''NEW''),
      (''updateTime'', PInt 1700000000000), (''clientOrderId'', PStr ''x1'')]) ''orderId'' = Some (PInt 42) \<and>
   map_of (extract_order_details
     [(''orderId'', PInt 42), (''symbol'', PStr ''ETHUSDT''), (''status'', PStr ''NEW''),
      (''updateTime'', PInt 1700000000000), (''clientOrderId'', PStr ''x1'')]) ''timestamp'' =
     Some (PInt 1700000000000) \<and>
   map_of (extract_order_details
     [(''orderId'', PInt 42), (''symbol'', PStr ''ETHUSDT''), (''status'', PStr ''NEW''),
      (''updateTime'', PInt 1700000000000), (''clientOrderId'', PStr ''x1'')]) ''clientOrderId'' = None"
proof -
  let ?r = "[(''orderId'', PInt 42), (''symbol'', PStr ''ETHUSDT''), (''status'', PStr ''NEW''),
             (''updateTime'', PInt 1700000000000), (''clientOrderId'', PStr ''x1'')]"
  note t = extract_order_details_projection [of ?r]
  have keys: "map fst (extract_order_details ?r) =
     [''orderId'', ''symbol'', ''side'', ''type'', ''status'', ''executedQty'', ''avgPrice'',
      ''timestamp'']"
    using t by blast
  have a: "map_of ?r ''avgPrice'' = None" by simp
  have o: "map_of ?r ''orderId'' = Some (PInt 42)" by simp
  have u: "map_of ?r ''updateTime'' = Some (PInt 1700000000000)" by simp
  have 1: "map_of (extract_order_details ?r) ''avgPrice'' = Some PNone"
    using t a by simp
  have 2: "map_of (extract_order_details ?r) ''orderId'' = Some (PInt 42)"
    using t o by simp
  have 3: "map_of (extract_order_details ?r) ''timestamp'' = Some (PInt 1700000000000)"
    using t u by simp
  have "''clientOrderId'' \<notin> set (map fst (extract_order_details ?r))"
    unfolding keys by simp
  then have 4: "map_of (extract_order_details ?r) ''clientOrderId'' = None"
    by (simp add: map_of_eq_None_iff)
  show ?thesis using 1 2 3 4 by blast
qed

section \<open>All inputs\<close>



text \<open>
  C8. The input \<^verbatim>\<open>("btcusdt", "buy", "market", 0.001, None)\<close> is valid, and what
  \<^verbatim>\<open>validate_all_inputs\<close> returns for it is
  \<^verbatim>\<open>("BTCUSDT", "BUY", "MARKET", 0.001, None)\<close>.
\<close>

theorem validate_all_inputs_round_trip:
  "validate_all_inputs (PStr ''btcusdt'') (PStr ''buy'') (PStr ''market'') (PFloat float_0_001) PNone =
     ([validating (PStr ''btcusdt'') (PStr ''buy'') (PStr ''market'') (PFloat float_0_001) PNone,
       Log DEBUG [Lit ''Symbol validated: '', Val (PStr ''BTCUSDT'')],
       Log DEBUG [Lit ''Side validated: '', Val (PStr ''BUY'')],
       Log DEBUG [Lit ''Order type validated: '', Val (PStr ''MARKET'')],
       Log DEBUG [Lit ''Quantity validated: '', Val (PFloat float_0_001)],
       Log INFO [Lit ''All inputs validated successfully'']],
      Inr \<lparr>v_symbol = ''BTCUSDT'', v_side = ''BUY'', v_order_type = ''MARKET'',
           v_quantity = float_0_001, v_price = None\<rparr>)"
  by code_simp

theorem validate_all_inputs_round_trip_witness:
  "\<not> failed (validate_all_inputs (PStr ''btcusdt'') (PStr ''buy'') (PStr ''market'')
               (PFloat float_0_001) PNone) \<and>
   snd (validate_all_inputs (PStr ''btcusdt'') (PStr ''buy'') (PStr ''market'')
          (PFloat float_0_001) PNone) =
     Inr \<lparr>v_symbol = ''BTCUSDT'', v_side = ''BUY'', v_order_type = ''MARKET'',
          v_quantity = float_0_001, v_price = None\<rparr>"
  using validate_all_inputs_round_trip by (simp add: failed_def)

section \<open>Placing an order\<close>

text \<open>No validator sends a request: the events of validation are log records.\<close>

lemma validate_symbol_requests: "requests (fst (validate_symbol x)) = []"
  by (simp add: validate_symbol_def result_defs Let_def)

lemma validate_side_requests: "requests (fst (validate_side x)) = []"
  by (simp add: validate_side_def result_defs Let_def)

lemma validate_order_type_requests: "requests (fst (validate_order_type x)) = []"
  by (simp add: validate_order_type_def result_defs Let_def)

lemma validate_quantity_requests: "requests (fst (validate_quantity x)) = []"
  by (simp add: validate_quantity_def result_defs split: sum.splits)

lemma validate_price_requests: "requests (fst (validate_price x t)) = []"
  by (simp add: validate_price_def result_defs split: sum.splits)

lemma failure_log_requests: "requests (failure_log e) = []"
  by (simp add: failure_log_def)

lemma validate_all_inputs_requests: "requests (fst (validate_all_inputs sy sd ot q p)) = []"
  using validate_symbol_requests [of sy] validate_side_requests [of sd]
    validate_order_type_requests [of ot] validate_quantity_requests [of q]
  by (cases rule: vai_cases [of sy sd ot q p])
     (use validate_price_requests in \<open>auto simp: validating_def failure_log_requests
        dest: arg_cong [where f = "\<lambda>r. requests (fst r)"]\<close>)

text \<open>What a valid order is: the order type is one of the two, and decides the price.\<close>

lemma validate_order_type_ok:
  "validate_order_type ot = (l, Inr c) \<Longrightarrow> c = ''MARKET'' \<or> c = ''LIMIT''"
  by (auto simp: validate_order_type_def result_defs Let_def split: if_splits)

lemma validate_all_inputs_ok:
  assumes "snd (validate_all_inputs sy sd ot q p) = Inr v"
  shows "(v_order_type v = ''MARKET'' \<and> v_price v = None) \<or>
         (v_order_type v = ''LIMIT'' \<and> (\<exists>px. v_price v = Some px \<and> \<not> le_zero px))"
proof (cases rule: vai_cases [of sy sd ot q p])
  case (Valid l1 a l2 b l3 c l4 d l5 x)
  then have v: "v = \<lparr>v_symbol = a, v_side = b, v_order_type = c, v_quantity = d, v_price = x\<rparr>"
    using assms by simp
  from validate_order_type_ok [OF Valid(3)] show ?thesis
  proof
    assume c: "c = ''MARKET''"
    then have "x = None"
      using Valid(5) validate_price_other [of "PStr ''MARKET''" p] by simp
    with c v show ?thesis by simp
  next
    assume c: "c = ''LIMIT''"
    then obtain px where "x = Some px" "\<not> le_zero px"
      using Valid(5) validate_price_LIMIT_ok by blast
    with c v show ?thesis by simp
  qed
qed (use assms in simp_all)

text \<open>When validation raises, \<^verbatim>\<open>place_order\<close> logs the exception and raises it again.\<close>

lemma place_order_fail:
  "validate_all_inputs sy sd ot q p = (l, Inl e) \<Longrightarrow>
   place_order api sy sd ot q p =
     (l @ [Log ERROR (Lit (if is_ValueError e then ''Validation error: ''
                           else ''Order placement failed: '') # str_exn e)],
      Inl e)"
  by (simp add: place_order_def result_defs)

text \<open>Each client method sends one request, whatever the exchange answers.\<close>

lemma place_market_order_requests:
  "requests (fst (place_market_order api sy sd q)) =
     [[(''symbol'', sy), (''side'', sd), (''type'', PStr ''MARKET''), (''quantity'', q)]]"
  by (cases "api [(''symbol'', sy), (''side'', sd), (''type'', PStr ''MARKET''), (''quantity'', q)]")
     (simp_all add: place_market_order_def futures_create_order_def result_defs)

lemma place_limit_order_requests:
  "requests (fst (place_limit_order api sy sd q p)) =
     [[(''symbol'', sy), (''side'', sd), (''type'', PStr ''LIMIT''), (''timeInForce'', PStr ''GTC''),
       (''quantity'', q), (''price'', p)]]"
  by (cases "api [(''symbol'', sy), (''side'', sd), (''type'', PStr ''LIMIT''),
                  (''timeInForce'', PStr ''GTC''), (''quantity'', q), (''price'', p)]")
     (simp_all add: place_limit_order_def futures_create_order_def result_defs)

lemma place_order_requests:
  assumes "snd (validate_all_inputs sy sd ot q p) = Inr v"
  shows "requests (fst (place_order api sy sd ot q p)) =
     (if v_order_type v = ''MARKET''
      then requests (fst (place_market_order api (PStr (v_symbol v)) (PStr (v_side v))
                            (PFloat (v_quantity v))))
      else requests (fst (place_limit_order api (PStr (v_symbol v)) (PStr (v_side v))
                            (PFloat (v_quantity v)) (opt_float (v_price v)))))"
  using assms validate_all_inputs_requests [of sy sd ot q p]
  by (simp add: place_order_def fst_try_except fst_bind snd_bind seq_def log_def return_def
      raise_def Let_def split: sum.splits)

text \<open>
  C1. When one of the five validations fails (the price being validated against the
  normalized order type), \<^verbatim>\<open>validate_all_inputs\<close> raises, and \<^verbatim>\<open>place_order\<close> raises that
  same exception. Its events are those of the validation and one more log record of its
  own: whatever the client is, it is not called, and no request goes to the exchange.
\<close>

theorem place_order_validation_failure:
  assumes "failed (validate_symbol sy) \<or> failed (validate_side sd) \<or>
           failed (validate_order_type ot) \<or> failed (validate_quantity q) \<or>
           (\<exists>t. snd (validate_order_type ot) = Inr t \<and> failed (validate_price p (PStr t)))"
  shows "\<exists>l e. validate_all_inputs sy sd ot q p = (l, Inl e) \<and>
          place_order api sy sd ot q p =
            (l @ [Log ERROR (Lit (if is_ValueError e then ''Validation error: ''
                                  else ''Order placement failed: '') # str_exn e)],
             Inl e) \<and>
          requests (fst (place_order api sy sd ot q p)) = []"
proof -
  obtain l e where f: "validate_all_inputs sy sd ot q p = (l, Inl e)"
    using assms by (cases rule: vai_cases [of sy sd ot q p]) (auto simp: failed_def)
  have "requests l = []"
    using validate_all_inputs_requests [of sy sd ot q p] f by simp
  then show ?thesis
    using f place_order_fail [OF f, of api] by simp
qed

theorem place_order_validation_failure_witness:
  "place_order (\<lambda>kw. Inr [(''orderId'', PInt 1)]) (PStr ''BTC-USDT'') (PStr ''buy'')
     (PStr ''market'') (PFloat float_0_001) PNone =
     ([validating (PStr ''BTC-USDT'') (PStr ''buy'') (PStr ''market'') (PFloat float_0_001) PNone,
       Log WARNING [Lit ''Invalid symbol format: '', Val (PStr ''BTC-USDT'')],
       Log ERROR [Lit ''Validation failed: '',
                  Lit ''Symbol must contain only alphanumeric characters, got: '',
                  Val (PStr ''BTC-USDT'')],
       Log ERROR [Lit ''Validation error: '',
                  Lit ''Symbol must contain only alphanumeric characters, got: '',
                  Val (PStr ''BTC-USDT'')]],
      Inl (ValueError [Lit ''Symbol must contain only alphanumeric characters, got: '',
                       Val (PStr ''BTC-USDT'')])) \<and>
   requests (fst (place_order (\<lambda>kw. Inr [(''orderId'', PInt 1)]) (PStr ''BTC-USDT'') (PStr ''buy'')
     (PStr ''market'') (PFloat float_0_001) PNone)) = [] \<and>
   requests (fst (place_order (\<lambda>kw. Inr [(''orderId'', PInt 1)]) (PStr ''btcusdt'') (PStr ''buy'')
     (PStr ''limit'') (PFloat float_0_001) PNone)) = [] \<and>
   snd (place_order (\<lambda>kw. Inr [(''orderId'', PInt 1)]) (PStr ''btcusdt'') (PStr ''buy'')
     (PStr ''limit'') (PFloat float_0_001) PNone) =
     Inl (ValueError [Lit ''Price is required for LIMIT orders''])"
proof -
  let ?api = "\<lambda>kw :: (string \<times> pyval) list. Inr [(''orderId'', PInt 1)] :: exn + (string \<times> pyval) list"
  have a: "failed (validate_symbol (PStr ''BTC-USDT''))" by code_simp
  have va: "validate_all_inputs (PStr ''BTC-USDT'') (PStr ''buy'') (PStr ''market'')
      (PFloat float_0_001) PNone =
     ([validating (PStr ''BTC-USDT'') (PStr ''buy'') (PStr ''market'') (PFloat float_0_001) PNone,
       Log WARNING [Lit ''Invalid symbol format: '', Val (PStr ''BTC-USDT'')],
       Log ERROR [Lit ''Validation failed: '',
                  Lit ''Symbol must contain only alphanumeric characters, got: '',
                  Val (PStr ''BTC-USDT'')]],
      Inl (ValueError [Lit ''Symbol must contain only alphanumeric characters, got: '',
                       Val (PStr ''BTC-USDT'')]))"
    by code_simp
  have b: "snd (validate_order_type (PStr ''limit'')) = Inr ''LIMIT'' \<and>
           failed (validate_price PNone (PStr ''LIMIT''))"
    by code_simp
  have vb: "snd (validate_all_inputs (PStr ''btcusdt'') (PStr ''buy'') (PStr ''limit'')
      (PFloat float_0_001) PNone) = Inl (ValueError [Lit ''Price is required for LIMIT orders''])"
    by code_simp
  have 1: "place_order ?api (PStr ''BTC-USDT'') (PStr ''buy'') (PStr ''market'') (PFloat float_0_001)
       PNone =
     ([validating (PStr ''BTC-USDT'') (PStr ''buy'') (PStr ''market'') (PFloat float_0_001) PNone,
       Log WARNING [Lit ''Invalid symbol format: '', Val (PStr ''BTC-USDT'')],
       Log ERROR [Lit ''Validation failed: '',
                  Lit ''Symbol must contain only alphanumeric characters, got: '',
                  Val (PStr ''BTC-USDT'')],
       Log ERROR [Lit ''Validation error: '',
                  Lit ''Symbol must contain only alphanumeric characters, got: '',
                  Val (PStr ''BTC-USDT'')]],
      Inl (ValueError [Lit ''Symbol must contain only alphanumeric characters, got: '',
                       Val (PStr ''BTC-USDT'')])) \<and>
     requests (fst (place_order ?api (PStr ''BTC-USDT'') (PStr ''buy'') (PStr ''market'')
       (PFloat float_0_001) PNone)) = []"
    using place_order_validation_failure [of "PStr ''BTC-USDT''" "PStr ''buy''" "PStr ''market''"
        "PFloat float_0_001" PNone ?api] a va
    by auto
  have 2: "requests (fst (place_order ?api (PStr ''btcusdt'') (PStr ''buy'') (PStr ''limit'')
       (PFloat float_0_001) PNone)) = [] \<and>
     snd (place_order ?api (PStr ''btcusdt'') (PStr ''buy'') (PStr ''limit'') (PFloat float_0_001)
       PNone) = Inl (ValueError [Lit ''Price is required for LIMIT orders''])"
    using place_order_validation_failure [of "PStr ''btcusdt''" "PStr ''buy''" "PStr ''limit''"
        "PFloat float_0_001" PNone ?api] b vb
    by auto
  show ?thesis using 1 2 by blast
qed

text \<open>
  C2. For a valid order, \<^verbatim>\<open>place_order\<close> sends exactly one request. When the normalized
  order type is \<^verbatim>\<open>'MARKET'\<close> the request carries the symbol, the side, the type and the
  quantity, and no price; when it is \<^verbatim>\<open>'LIMIT'\<close> it carries the symbol, the side, the type,
  the time in force \<^verbatim>\<open>'GTC'\<close>, the quantity and the validated price. There is no third
  case, and the answer of the exchange changes nothing of this.
\<close>

theorem place_order_dispatch:
  assumes "snd (validate_all_inputs sy sd ot q p) = Inr v"
  shows "(v_order_type v = ''MARKET'' \<and>
          requests (fst (place_order api sy sd ot q p)) =
            [[(''symbol'', PStr (v_symbol v)), (''side'', PStr (v_side v)),
              (''type'', PStr ''MARKET''), (''quantity'', PFloat (v_quantity v))]]) \<or>
         (v_order_type v = ''LIMIT'' \<and>
          (\<exists>px. v_price v = Some px \<and>
             requests (fst (place_order api sy sd ot q p)) =
               [[(''symbol'', PStr (v_symbol v)), (''side'', PStr (v_side v)),
                 (''type'', PStr ''LIMIT''), (''timeInForce'', PStr ''GTC''),
                 (''quantity'', PFloat (v_quantity v)), (''price'', PFloat px)]]))"
  using validate_all_inputs_ok [OF assms] place_order_requests [OF assms, of api]
  by (auto simp: place_market_order_requests place_limit_order_requests opt_float_def)

text \<open>
  The witness: the limit order of the specification's scenario,
  \<^verbatim>\<open>("ETHUSDT", "SELL", "LIMIT", 0.01, 3500.50)\<close>, against an exchange that accepts it, and a
  market order with a price, against an exchange that refuses it.
\<close>

theorem place_order_dispatch_witness:
  "requests (fst (place_order (\<lambda>kw. Inr [(''orderId'', PInt 1), (''status'', PStr ''NEW'')])
     (PStr ''ETHUSDT'') (PStr ''SELL'') (PStr ''LIMIT'') (PFloat float_0_01)
     (PFloat (Finite (7001 / 2))))) =
     [[(''symbol'', PStr ''ETHUSDT''), (''side'', PStr ''SELL''), (''type'', PStr ''LIMIT''),
       (''timeInForce'', PStr ''GTC''), (''quantity'', PFloat float_0_01),
       (''price'', PFloat (Finite (7001 / 2)))]] \<and>
   requests (fst (place_order (\<lambda>kw. Inl (BinanceAPIException 400 (- 1121) ''Invalid symbol.''))
     (PStr ''btcusdt'') (PStr ''buy'') (PStr ''market'') (PFloat float_0_001)
     (PFloat (Finite (7001 / 2))))) =
     [[(''symbol'', PStr ''BTCUSDT''), (''side'', PStr ''BUY''), (''type'', PStr ''MARKET''),
       (''quantity'', PFloat float_0_001)]]"
proof -
  have a: "snd (validate_all_inputs (PStr ''ETHUSDT'') (PStr ''SELL'') (PStr ''LIMIT'')
      (PFloat float_0_01) (PFloat (Finite (7001 / 2)))) =
     Inr \<lparr>v_symbol = ''ETHUSDT'', v_side = ''SELL'', v_order_type = ''LIMIT'',
          v_quantity = float_0_01, v_price = Some (Finite (7001 / 2))\<rparr>"
    by code_simp
  have b: "snd (validate_all_inputs (PStr ''btcusdt'') (PStr ''buy'') (PStr ''market'')
      (PFloat float_0_001) (PFloat (Finite (7001 / 2)))) =
     Inr \<lparr>v_symbol = ''BTCUSDT'', v_side = ''BUY'', v_order_type = ''MARKET'',
          v_quantity = float_0_001, v_price = None\<rparr>"
    by code_simp
  show ?thesis
    using place_order_dispatch [OF a, of "\<lambda>kw. Inr [(''orderId'', PInt 1), (''status'', PStr ''NEW'')]"]
      place_order_dispatch [OF b, of "\<lambda>kw. Inl (BinanceAPIException 400 (- 1121) ''Invalid symbol.'')"]
    by simp
qed

end
